theory Spec2Isabelle
  imports Main
begin

section \<open>Data model (types.ts)\<close>

text \<open>
  JavaScript strings are modelled as \<open>string\<close>: a list of code units, restricted to the
  code units below 256. Optional fields (\<open>field?: T\<close>) are \<open>option\<close>s, \<open>None\<close> standing for
  \<open>undefined\<close>. Field names carry the name of their interface as a prefix, since several
  interfaces share the names \<open>id\<close>, \<open>content\<close>, \<open>title\<close> and \<open>sources\<close>.
\<close>

datatype role = User | Model | System

datatype status = StPending | StResearching | StCompleted | StFailed

datatype phase = Idle | Planning | Reviewing | Researching | Reporting | Completed

record Source =
  src_title :: string
  src_uri :: string

record ResearchStep =
  step_id :: string
  step_query :: string
  step_status :: status
  step_finding :: "string option"
  step_sources :: "Source list option"

record ResearchPlan =
  plan_topic :: string
  plan_steps :: "ResearchStep list"

record Message =
  msg_id :: string
  msg_role :: role
  msg_content :: string
  msg_timestamp :: int
  msg_isThinking :: "bool option"
  msg_searchQueries :: "string list option"
  msg_plan :: "ResearchPlan option"

record ArtifactState =
  art_title :: string
  art_content :: string
  art_phase :: phase
  art_sources :: "Source list"
  art_currentStepId :: "string option"

datatype error = ApiError | SyntaxError | TypeError

section \<open>JavaScript primitives used by the code\<close>

text \<open>\<open>String.prototype.trim\<close>: white space and line terminators, among the code units below 256.\<close>

definition js_space :: "char \<Rightarrow> bool" where
  "js_space c = (c \<in> set [CHR 0x09, CHR 0x0A, CHR 0x0B, CHR 0x0C, CHR 0x0D, CHR 0x20, CHR 0xA0])"

definition trim :: "string \<Rightarrow> string" where
  "trim s = rev (dropWhile js_space (rev (dropWhile js_space s)))"

text \<open>\<open>x || d\<close> on an optional string: \<open>undefined\<close> and the empty string are falsy.\<close>

fun or_else :: "string option \<Rightarrow> string \<Rightarrow> string" where
  "or_else None d = d"
| "or_else (Some s) d = (if s = [] then d else s)"

text \<open>Decimal rendering of an integer, as \<open>toString()\<close> and template literals give it.\<close>

definition digit_char :: "nat \<Rightarrow> char" where
  "digit_char d = ''0123456789'' ! d"

fun digits :: "nat \<Rightarrow> string" where
  "digits n = (if n < 10 then [digit_char n] else digits (n div 10) @ [digit_char (n mod 10)])"

declare digits.simps [simp del]

definition toString :: "int \<Rightarrow> string" where
  "toString i = (if i < 0 then CHR ''-'' # digits (nat (- i)) else digits (nat i))"

section \<open>The researcher (services/gemini.ts, executeResearchStep)\<close>

text \<open>
  What \<open>ai.models.generateContent\<close> does on one call is an input of the model: it rejects,
  or it resolves to a response. Of the response the code reads \<open>text\<close> and
  \<open>candidates?.[0]?.groundingMetadata?.groundingChunks\<close> (\<open>None\<close> when a link of that chain
  is missing). An element of \<open>groundingChunks\<close> is an object with an optional \<open>web\<close>, or
  \<open>null\<close>, on which reading \<open>chunk.web\<close> throws.
\<close>

record Web =
  web_uri :: "string option"
  web_title :: "string option"

datatype chunk = NullChunk | Chunk "Web option"

record Response =
  resp_text :: "string option"
  resp_groundingChunks :: "chunk list option"

datatype research_reply = ResearchRejects | ResearchResolves Response

type_synonym research_result = "string \<times> Source list"

text \<open>The \<open>forEach\<close> that pushes the usable chunks onto \<open>sources\<close>.\<close>

fun collectSources :: "chunk list \<Rightarrow> Source list \<Rightarrow> error + Source list" where
  "collectSources [] sources = Inr sources"
| "collectSources (NullChunk # cs) sources = Inl TypeError"
| "collectSources (Chunk None # cs) sources = collectSources cs sources"
| "collectSources (Chunk (Some w) # cs) sources =
     (case (web_uri w, web_title w) of
        (Some uri, Some title) \<Rightarrow>
          (if uri \<noteq> [] \<and> title \<noteq> []
           then collectSources cs (sources @ [\<lparr>src_title = title, src_uri = uri\<rparr>])
           else collectSources cs sources)
      | _ \<Rightarrow> collectSources cs sources)"

text \<open>The body of the \<open>try\<close> block.\<close>

definition researchTry :: "research_reply \<Rightarrow> ResearchStep \<Rightarrow> error + research_result" where
  "researchTry reply step =
     (case reply of
        ResearchRejects \<Rightarrow> Inl ApiError
      | ResearchResolves response \<Rightarrow>
          (let finding = or_else (resp_text response) ''No information found.'' in
           case resp_groundingChunks response of
             None \<Rightarrow> Inr (finding, [])
           | Some groundingChunks \<Rightarrow>
               (case collectSources groundingChunks [] of
                  Inl e \<Rightarrow> Inl e
                | Inr sources \<Rightarrow> Inr (finding, sources))))"

definition degraded :: research_result where
  "degraded = (''Failed to fetch info for this step.'', [])"

text \<open>\<open>try { ... } catch (error) { return degraded }\<close>.\<close>

definition executeResearchStep :: "research_reply \<Rightarrow> ResearchStep \<Rightarrow> error + research_result" where
  "executeResearchStep reply step =
     (case researchTry reply step of
        Inl e \<Rightarrow> Inr degraded
      | Inr result \<Rightarrow> Inr result)"

section \<open>The planner (services/gemini.ts, createResearchPlan)\<close>

text \<open>
  The call to \<open>ai.models.generateContent\<close> rejects, or resolves to a response of which the
  code reads \<open>text\<close>. \<open>JSON.parse\<close> is a function of the platform; it is a parameter of the
  model, and its result is classified by what \<open>json.steps.map(...)\<close> does with it: \<open>None\<close>
  when \<open>JSON.parse\<close> throws a SyntaxError; \<open>Some NotAPlan\<close> when the parsed value has no array
  of objects under \<open>steps\<close>, so that \<open>json.steps.map\<close> throws a TypeError;
  \<open>Some (StepQueries qs)\<close> when \<open>steps\<close> is an array of objects whose \<open>query\<close> fields are \<open>qs\<close>.
\<close>

datatype planner_reply = PlannerRejects | PlannerResolves "string option"

datatype parsed = NotAPlan | StepQueries "string list"

definition defaultPlanJson :: string where
  "defaultPlanJson = ''{'' @ [CHR 0x22] @ ''steps'' @ [CHR 0x22] @ '': []}''"

definition planStep :: "nat \<times> string \<Rightarrow> ResearchStep" where
  "planStep = (\<lambda>(i, q).
     \<lparr>step_id = ''step-'' @ toString (int i), step_query = q, step_status = StPending,
      step_finding = None, step_sources = None\<rparr>)"

definition createResearchPlan ::
  "(string \<Rightarrow> parsed option) \<Rightarrow> planner_reply \<Rightarrow> string \<Rightarrow> error + ResearchPlan" where
  "createResearchPlan jsonParse reply topic =
     (case reply of
        PlannerRejects \<Rightarrow> Inl ApiError
      | PlannerResolves text \<Rightarrow>
          (case jsonParse (or_else text defaultPlanJson) of
             None \<Rightarrow> Inl SyntaxError
           | Some NotAPlan \<Rightarrow> Inl TypeError
           | Some (StepQueries qs) \<Rightarrow>
               Inr \<lparr>plan_topic = topic, plan_steps = map planStep (enumerate 0 qs)\<rparr>))"

section \<open>The reporter (services/gemini.ts, generateFinalReportStream)\<close>

text \<open>
  The prompt that the function builds from \<open>topic\<close> and \<open>completedSteps\<close> goes to the
  generation service, whose reply is an input of the model, given for these two arguments.
  The stream delivers chunks, of which the code reads \<open>text\<close>, and then ends or rejects
  (\<open>rep_rejects\<close>; a call that rejects before its first chunk has no chunks).
\<close>

record reporter_reply =
  rep_chunks :: "string option list"
  rep_rejects :: bool

text \<open>\<open>for await (const chunk of responseStream) { if (chunk.text) onChunk(chunk.text) }\<close>.\<close>

fun forAwait :: "string option list \<Rightarrow> (string \<Rightarrow> 's \<Rightarrow> 's) \<Rightarrow> 's \<Rightarrow> 's" where
  "forAwait [] onChunk s = s"
| "forAwait (None # rest) onChunk s = forAwait rest onChunk s"
| "forAwait (Some text # rest) onChunk s =
     (if text \<noteq> [] then forAwait rest onChunk (onChunk text s) else forAwait rest onChunk s)"

definition generateFinalReportStream ::
  "(string \<Rightarrow> ResearchStep list \<Rightarrow> reporter_reply) \<Rightarrow> string \<Rightarrow> ResearchStep list \<Rightarrow>
   (string \<Rightarrow> 's \<Rightarrow> 's) \<Rightarrow> 's \<Rightarrow> (error + unit) \<times> 's" where
  "generateFinalReportStream service topic completedSteps onChunk s =
     (let reply = service topic completedSteps;
          s' = forAwait (rep_chunks reply) onChunk s
      in if rep_rejects reply then (Inl ApiError, s') else (Inr (), s'))"

section \<open>The orchestrator (App)\<close>

text \<open>
  The environment of one handler invocation: \<open>dateNow k\<close> is the reading of the invocation's
  \<open>k\<close>-th call of \<open>Date.now()\<close>, \<open>researcher k step\<close> what the generation service does on the
  \<open>k\<close>-th call of \<open>executeResearchStep\<close>, made for \<open>step\<close>.
\<close>

record env =
  dateNow :: "nat \<Rightarrow> int"
  jsonParse :: "string \<Rightarrow> parsed option"
  planner :: "string \<Rightarrow> planner_reply"
  researcher :: "nat \<Rightarrow> ResearchStep \<Rightarrow> research_reply"
  reporter :: "string \<Rightarrow> ResearchStep list \<Rightarrow> reporter_reply"

datatype call =
  PlannerCall string
| ResearcherCall ResearchStep
| ReporterCall string "ResearchStep list"

text \<open>
  The component's state: the four \<open>useState\<close> cells, and two logs that the code does not
  hold, kept to state what it did: \<open>calls\<close>, the calls of the three agents in the order they
  were made, and \<open>history\<close>, the artifact state after each \<open>setArtifact\<close>.
\<close>

record App =
  input :: string
  messages :: "Message list"
  artifact :: ArtifactState
  currentPlan :: "ResearchPlan option"
  calls :: "call list"
  history :: "ArtifactState list"

definition message :: "string \<Rightarrow> role \<Rightarrow> string \<Rightarrow> int \<Rightarrow> Message" where
  "message i r c t =
     \<lparr>msg_id = i, msg_role = r, msg_content = c, msg_timestamp = t,
      msg_isThinking = None, msg_searchQueries = None, msg_plan = None\<rparr>"

definition initialApp :: "int \<Rightarrow> App" where
  "initialApp now =
     \<lparr>input = [],
      messages = [message ''welcome'' System
        ''Welcome to DeepDive. I am your AI Research Agent. I will coordinate a Planner, Researcher, and Reporter to investigate any topic for you.''
        now],
      artifact = \<lparr>art_title = ''Research Hub'', art_content = [], art_phase = Idle,
                  art_sources = [], art_currentStepId = None\<rparr>,
      currentPlan = None, calls = [], history = []\<rparr>"

definition setMessages :: "(Message list \<Rightarrow> Message list) \<Rightarrow> App \<Rightarrow> App" where
  "setMessages f s = s\<lparr>messages := f (messages s)\<rparr>"

definition setArtifact :: "(ArtifactState \<Rightarrow> ArtifactState) \<Rightarrow> App \<Rightarrow> App" where
  "setArtifact f s = s\<lparr>artifact := f (artifact s), history := history s @ [f (artifact s)]\<rparr>"

definition called :: "call \<Rightarrow> App \<Rightarrow> App" where
  "called c s = s\<lparr>calls := calls s @ [c]\<rparr>"

subsection \<open>Phase 1: plan (handleInitialRequest)\<close>

definition thinkingContent :: "string \<Rightarrow> string" where
  "thinkingContent topic =
     ''Coordinator: Activating Planner agent for '' @ [CHR 0x22] @ topic @ [CHR 0x22] @ ''...''"

definition handleInitialRequest :: "env \<Rightarrow> App \<Rightarrow> App" where
  "handleInitialRequest env s =
     (if trim (input s) = [] then s
      else
        let topic = input s;
            s1 = s\<lparr>input := []\<rparr>;
            userMsg = message (toString (dateNow env 0)) User topic (dateNow env 1);
            s2 = setMessages (\<lambda>prev. prev @ [userMsg]) s1;
            s3 = setArtifact (\<lambda>_. \<lparr>art_title = topic, art_content = [], art_phase = Planning,
                                     art_sources = [], art_currentStepId = None\<rparr>) s2;
            thinkingId = toString (dateNow env 2 + 1);
            s4 = setMessages (\<lambda>prev. prev @
                   [(message thinkingId Model (thinkingContent topic) (dateNow env 3))
                      \<lparr>msg_isThinking := Some True\<rparr>]) s3;
            s5 = called (PlannerCall topic) s4
        in case createResearchPlan (jsonParse env) (planner env topic) topic of
             Inr plan \<Rightarrow>
               (let s6 = s5\<lparr>currentPlan := Some plan\<rparr>;
                    s7 = setMessages (map (\<lambda>m.
                           if msg_id m = thinkingId
                           then m\<lparr>msg_isThinking := Some False,
                                  msg_content := ''Planner: I've outlined a strategy. Please review it below.'',
                                  msg_plan := Some plan\<rparr>
                           else m)) s6
                in setArtifact (\<lambda>prev. prev\<lparr>art_phase := Reviewing\<rparr>) s7)
           | Inl e \<Rightarrow>
               (let s6 = setMessages (\<lambda>prev. prev @
                           [message (toString (dateNow env 4)) Model
                              ''Planner failed to generate a plan. Please try again.''
                              (dateNow env 5)]) s5
                in setArtifact (\<lambda>prev. prev\<lparr>art_phase := Idle\<rparr>) s6))"

subsection \<open>The input surface (handleKeyDown and the disabled attributes)\<close>

record KeyboardEvent =
  key :: string
  shiftKey :: bool

definition handleKeyDown :: "env \<Rightarrow> KeyboardEvent \<Rightarrow> App \<Rightarrow> App" where
  "handleKeyDown env e s =
     (if key e = ''Enter'' \<and> \<not> shiftKey e
      then (if art_phase (artifact s) = Idle \<or> art_phase (artifact s) = Completed
            then handleInitialRequest env s
            else s)
      else s)"

text \<open>The \<open>disabled\<close> attributes of the text input and of the send button.\<close>

definition inputDisabled :: "App \<Rightarrow> bool" where
  "inputDisabled s = (art_phase (artifact s) \<noteq> Idle \<and> art_phase (artifact s) \<noteq> Completed)"

definition sendDisabled :: "App \<Rightarrow> bool" where
  "sendDisabled s =
     (trim (input s) = [] \<or> (art_phase (artifact s) \<noteq> Idle \<and> art_phase (artifact s) \<noteq> Completed))"

subsection \<open>Phases 2 and 3: research loop and report (handlePlanApproval)\<close>

text \<open>The updater that accumulates the sources of one result.\<close>

definition addSources :: "Source list \<Rightarrow> ArtifactState \<Rightarrow> ArtifactState" where
  "addSources resultSources prev =
     (let existingUrls = set (map src_uri (art_sources prev));
          uniqueNew = filter (\<lambda>x. src_uri x \<notin> existingUrls) resultSources
      in prev\<lparr>art_sources := art_sources prev @ uniqueNew\<rparr>)"

text \<open>\<open>{ ...step, status: 'completed', ...result }\<close>.\<close>

definition completeStep :: "ResearchStep \<Rightarrow> research_result \<Rightarrow> ResearchStep" where
  "completeStep step result =
     step\<lparr>step_status := StCompleted, step_finding := Some (fst result),
          step_sources := Some (snd result)\<rparr>"

text \<open>
  The \<open>for\<close> loop over \<open>approvedPlan.steps\<close>; \<open>k\<close> counts the calls of the researcher and
  \<open>completedSteps\<close> is the local accumulator. The pacing delay at the end of the body
  changes no state. An error of \<open>executeResearchStep\<close> would leave the loop and the handler.
\<close>

fun researchLoop ::
  "env \<Rightarrow> nat \<Rightarrow> ResearchStep list \<Rightarrow> ResearchStep list \<Rightarrow> App \<Rightarrow>
   (error + ResearchStep list) \<times> App" where
  "researchLoop env k [] completedSteps s = (Inr completedSteps, s)"
| "researchLoop env k (step # rest) completedSteps s =
     (let s1 = setArtifact (\<lambda>prev. prev\<lparr>art_currentStepId := Some (step_id step)\<rparr>) s;
          s2 = called (ResearcherCall step) s1
      in case executeResearchStep (researcher env k step) step of
           Inl e \<Rightarrow> (Inl e, s2)
         | Inr result \<Rightarrow>
             (let completedStep = completeStep step result;
                  s3 = setArtifact (addSources (snd result)) s2
              in researchLoop env (Suc k) rest (completedSteps @ [completedStep]) s3))"

text \<open>The chunk callback that \<open>handlePlanApproval\<close> hands to the reporter.\<close>

definition appendChunk :: "string \<Rightarrow> App \<Rightarrow> App" where
  "appendChunk chunk = setArtifact (\<lambda>prev. prev\<lparr>art_content := art_content prev @ chunk\<rparr>)"

text \<open>The statements of \<open>handlePlanApproval\<close> before the loop.\<close>

definition beginResearch :: "env \<Rightarrow> ResearchPlan \<Rightarrow> App \<Rightarrow> App" where
  "beginResearch env approvedPlan s =
     (let s1 = s\<lparr>currentPlan := Some approvedPlan\<rparr>;
          s2 = setMessages (\<lambda>prev. prev @
                 [message (toString (dateNow env 0)) Model
                    ''Plan approved. Deploying Researcher agent now. Check the sidebar for live progress.''
                    (dateNow env 1)]) s1
      in setArtifact (\<lambda>prev. prev\<lparr>art_phase := Researching\<rparr>) s2)"

text \<open>The statements between the loop and the call of the reporter.\<close>

definition beginReport :: "env \<Rightarrow> App \<Rightarrow> App" where
  "beginReport env s =
     (let s1 = setArtifact (\<lambda>prev. prev\<lparr>art_phase := Reporting, art_currentStepId := None\<rparr>) s
      in setMessages (\<lambda>prev. prev @
           [message (toString (dateNow env 2)) Model
              ''Research complete. Reporter agent is compiling the final artifact...''
              (dateNow env 3)]) s1)"

text \<open>
  The handler resolves (\<open>Inr ()\<close>) or rejects with the error that the reporter's stream
  raised; the state holds every update made until then.
\<close>

definition handlePlanApproval :: "env \<Rightarrow> ResearchPlan \<Rightarrow> App \<Rightarrow> (error + unit) \<times> App" where
  "handlePlanApproval env approvedPlan s =
     (case researchLoop env 0 (plan_steps approvedPlan) [] (beginResearch env approvedPlan s) of
        (Inl e, s4) \<Rightarrow> (Inl e, s4)
      | (Inr completedSteps, s4) \<Rightarrow>
          (case generateFinalReportStream (reporter env) (plan_topic approvedPlan) completedSteps
                  appendChunk
                  (called (ReporterCall (plan_topic approvedPlan) completedSteps)
                     (beginReport env s4)) of
             (Inl e, s8) \<Rightarrow> (Inl e, s8)
           | (Inr u, s8) \<Rightarrow> (Inr (), setArtifact (\<lambda>prev. prev\<lparr>art_phase := Completed\<rparr>) s8)))"

section \<open>The plan editor (components/PlanReview.tsx)\<close>

text \<open>The prop \<open>plan\<close> and the two \<open>useState\<close> cells; \<open>planReview\<close> is the first render.\<close>

record PlanReview =
  pr_plan :: ResearchPlan
  steps :: "ResearchStep list"
  newStepText :: string

definition planReview :: "ResearchPlan \<Rightarrow> PlanReview" where
  "planReview plan = \<lparr>pr_plan = plan, steps = plan_steps plan, newStepText = []\<rparr>"

definition setNewStepText :: "string \<Rightarrow> PlanReview \<Rightarrow> PlanReview" where
  "setNewStepText text st = st\<lparr>newStepText := text\<rparr>"

text \<open>\<open>handleAdd\<close>; \<open>now\<close> is the reading of its call of \<open>Date.now()\<close>.\<close>

definition handleAdd :: "int \<Rightarrow> PlanReview \<Rightarrow> PlanReview" where
  "handleAdd now st =
     (if trim (newStepText st) = [] then st
      else
        let newStep = \<lparr>step_id = ''new-'' @ toString now, step_query = newStepText st,
                       step_status = StPending, step_finding = None, step_sources = None\<rparr>
        in st\<lparr>steps := steps st @ [newStep], newStepText := []\<rparr>)"

definition handleRemove :: "string \<Rightarrow> PlanReview \<Rightarrow> PlanReview" where
  "handleRemove i st = st\<lparr>steps := filter (\<lambda>s. step_id s \<noteq> i) (steps st)\<rparr>"

definition handleEdit :: "string \<Rightarrow> string \<Rightarrow> PlanReview \<Rightarrow> PlanReview" where
  "handleEdit i text st =
     st\<lparr>steps := map (\<lambda>s. if step_id s = i then s\<lparr>step_query := text\<rparr> else s) (steps st)\<rparr>"

text \<open>The plan that the approve button hands to \<open>onApprove\<close>.\<close>

definition approve :: "PlanReview \<Rightarrow> ResearchPlan" where
  "approve st = (pr_plan st)\<lparr>plan_steps := steps st\<rparr>"

subsection \<open>Editing sessions\<close>

text \<open>
  The events of the editor between two renders: the user types \<open>text\<close> and adds it while
  \<open>Date.now()\<close> reads \<open>now\<close>, removes the step \<open>i\<close>, or edits the query of the step \<open>i\<close>.
  \<open>renders es st\<close> lists the states of the working copy during the events \<open>es\<close>, the first
  being \<open>st\<close>, and \<open>addReadings es\<close> the clock readings of its additions.
\<close>

datatype edit = Add string int | Remove string | Edit string string

fun applyEdit :: "edit \<Rightarrow> PlanReview \<Rightarrow> PlanReview" where
  "applyEdit (Add text now) st = handleAdd now (setNewStepText text st)"
| "applyEdit (Remove i) st = handleRemove i st"
| "applyEdit (Edit i text) st = handleEdit i text st"

fun renders :: "edit list \<Rightarrow> PlanReview \<Rightarrow> PlanReview list" where
  "renders [] st = [st]"
| "renders (e # es) st = st # renders es (applyEdit e st)"

fun addReadings :: "edit list \<Rightarrow> int list" where
  "addReadings [] = []"
| "addReadings (Add text now # es) = now # addReadings es"
| "addReadings (e # es) = addReadings es"

text \<open>
  An invariant of editing sessions, used in proofs only: an id is known from the readings
  \<open>rs\<close> when the planner assigned it or \<open>handleAdd\<close> made it at one of these readings.
\<close>

definition knownId :: "int list \<Rightarrow> string \<Rightarrow> bool" where
  "knownId readings i = ((\<exists>k q. i = step_id (planStep (k, q))) \<or> (\<exists>t \<in> set readings. i = ''new-'' @ toString t))"

section \<open>Observations and example inputs\<close>

text \<open>
  The phases that a handler made the artifact pass through: the phases of the artifact
  states logged between two states, a phase that several successive updates keep counted
  once.
\<close>

definition phasesSince :: "App \<Rightarrow> App \<Rightarrow> phase list" where
  "phasesSince s s' = remdups_adj (map art_phase (drop (length (history s)) (history s')))"

definition enterKey :: KeyboardEvent where
  "enterKey = \<lparr>key = ''Enter'', shiftKey = False\<rparr>"

text \<open>
  An environment in which the planner proposes three steps, the researcher fails on its
  second call, and the reporter streams four chunks, one of them empty and one without text.
\<close>

definition exampleEnv :: env where
  "exampleEnv =
     \<lparr>dateNow = (\<lambda>k. 1700000000000 + int k),
      jsonParse = (\<lambda>text. if text = defaultPlanJson then Some (StepQueries [])
                           else Some (StepQueries [''history'', ''efficiency'', ''market''])),
      planner = (\<lambda>topic. PlannerResolves (Some ''{...}'')),
      researcher = (\<lambda>k step.
         if k = 1 then ResearchRejects
         else ResearchResolves
                \<lparr>resp_text = Some ''Panels convert light.'',
                 resp_groundingChunks = Some
                   [Chunk (Some \<lparr>web_uri = Some ''https://a.example'', web_title = Some ''A''\<rparr>)]\<rparr>),
      reporter = (\<lambda>topic completedSteps.
         \<lparr>rep_chunks = [Some ''# Solar'', Some [], None, Some '' panels''], rep_rejects = False\<rparr>)\<rparr>"

text \<open>An environment whose researcher returns the same uri twice in one result.\<close>

definition repeatingEnv :: env where
  "repeatingEnv = exampleEnv\<lparr>researcher := (\<lambda>k step.
     ResearchResolves
       \<lparr>resp_text = Some ''Panels convert light.'',
        resp_groundingChunks = Some
          [Chunk (Some \<lparr>web_uri = Some ''https://a.example'', web_title = Some ''A''\<rparr>),
           Chunk (Some \<lparr>web_uri = Some ''https://a.example'', web_title = Some ''A again''\<rparr>)]\<rparr>)\<rparr>"

definition exampleStep :: ResearchStep where
  "exampleStep = \<lparr>step_id = ''step-0'', step_query = ''history'', step_status = StPending,
                   step_finding = None, step_sources = None\<rparr>"

definition examplePlan :: ResearchPlan where
  "examplePlan = \<lparr>plan_topic = ''solar panels'', plan_steps =
     [exampleStep, exampleStep\<lparr>step_id := ''step-1'', step_query := ''efficiency''\<rparr>]\<rparr>"

text \<open>Environments whose planner call rejects, and whose planner output does not parse.\<close>

definition failingEnv :: env where
  "failingEnv = exampleEnv\<lparr>planner := (\<lambda>topic. PlannerRejects)\<rparr>"

definition unparsableEnv :: env where
  "unparsableEnv = exampleEnv\<lparr>jsonParse := (\<lambda>text. None)\<rparr>"

text \<open>
  States of the orchestrator: a topic typed into the idle application, a topic of white
  space only, and a topic typed while a run is researching.
\<close>

definition submitExample :: App where
  "submitExample = (initialApp 1700000000000)\<lparr>input := ''solar panels''\<rparr>"

definition blankExample :: App where
  "blankExample = (initialApp 1700000000000)\<lparr>input := '' ''\<rparr>"

definition busyExample :: App where
  "busyExample = (initialApp 1700000000000)
     \<lparr>input := ''wind turbines'',
      artifact := \<lparr>art_title = ''solar panels'', art_content = [], art_phase = Researching,
                   art_sources = [], art_currentStepId = Some ''step-0''\<rparr>\<rparr>"

text \<open>
  The plan that \<open>exampleEnv\<close>'s planner returns, that plan after the user has removed its
  second step and added one, and a working copy to which a step was added at the clock
  reading 1700000009000.
\<close>

definition plannedExample :: ResearchPlan where
  "plannedExample = \<lparr>plan_topic = ''solar panels'',
     plan_steps = map planStep (enumerate 0 [''history'', ''efficiency'', ''market''])\<rparr>"

definition editedExample :: ResearchPlan where
  "editedExample = approve (applyEdit (Add ''cost trends 2024'' 1700000009000)
     (applyEdit (Remove ''step-1'') (planReview plannedExample)))"

definition reusedExample :: PlanReview where
  "reusedExample = applyEdit (Add ''cost trends 2024'' 1700000009000) (planReview plannedExample)"

section \<open>Auxiliary facts\<close>

lemmas example_defs = submitExample_def blankExample_def busyExample_def plannedExample_def
  editedExample_def exampleEnv_def repeatingEnv_def exampleStep_def examplePlan_def
  initialApp_def enterKey_def

lemmas more_defs = failingEnv_def unparsableEnv_def reusedExample_def

lemmas string_defs = trim_def js_space_def toString_def digits.simps digit_char_def
  defaultPlanJson_def thinkingContent_def

lemmas code_defs = handleInitialRequest_def handleKeyDown_def handlePlanApproval_def
  beginResearch_def beginReport_def generateFinalReportStream_def appendChunk_def
  setArtifact_def setMessages_def called_def addSources_def completeStep_def
  executeResearchStep_def researchTry_def degraded_def createResearchPlan_def planStep_def
  message_def approve_def planReview_def handleAdd_def handleRemove_def handleEdit_def
  setNewStepText_def phasesSince_def Let_def

subsection \<open>Decimal rendering is injective\<close>

lemma of_char_digit: "d < 10 \<Longrightarrow> (of_char (digit_char d) :: nat) = 48 + d"
proof -
  assume "d < 10"
  then have "d \<in> {0, 1, 2, 3, 4, 5, 6, 7, 8, 9}" by auto
  then show ?thesis by (auto simp: digit_char_def)
qed

lemma digit_char_inj: "d < 10 \<Longrightarrow> e < 10 \<Longrightarrow> digit_char d = digit_char e \<Longrightarrow> d = e"
proof -
  assume d: "d < 10" and e: "e < 10" and eq: "digit_char d = digit_char e"
  have "48 + d = (of_char (digit_char d) :: nat)" using d by (simp only: of_char_digit)
  also have "\<dots> = of_char (digit_char e)" by (simp only: eq)
  also have "\<dots> = 48 + e" using e by (simp only: of_char_digit)
  finally show "d = e" by simp
qed

lemma digit_char_not_minus: "d < 10 \<Longrightarrow> digit_char d \<noteq> CHR ''-''"
proof
  assume d: "d < 10" and eq: "digit_char d = CHR ''-''"
  have "48 + d = (of_char (digit_char d) :: nat)" using d by (simp only: of_char_digit)
  also have "\<dots> = of_char (CHR ''-'')" by (simp only: eq)
  finally show False by simp
qed

lemma digits_nonempty: "digits n \<noteq> []"
  by (subst digits.simps) simp

lemma digits_inj: "digits n = digits m \<Longrightarrow> n = m"
proof (induction n arbitrary: m rule: digits.induct)
  case (1 n)
  show ?case
  proof (cases "n < 10")
    case True
    then have n: "digits n = [digit_char n]" by (subst digits.simps) simp
    show ?thesis
    proof (cases "m < 10")
      case True
      then have "digits m = [digit_char m]" by (subst digits.simps) simp
      with n "1.prems" have "digit_char n = digit_char m" by simp
      with \<open>n < 10\<close> \<open>m < 10\<close> show ?thesis by (rule digit_char_inj)
    next
      case False
      then have "digits m = digits (m div 10) @ [digit_char (m mod 10)]"
        by (subst digits.simps) simp
      with n "1.prems" have "digits (m div 10) = []" by simp
      then show ?thesis by (simp add: digits_nonempty)
    qed
  next
    case False
    then have n: "digits n = digits (n div 10) @ [digit_char (n mod 10)]"
      by (subst digits.simps) simp
    show ?thesis
    proof (cases "m < 10")
      case True
      then have "digits m = [digit_char m]" by (subst digits.simps) simp
      with n "1.prems" have "digits (n div 10) = []" by simp
      then show ?thesis by (simp add: digits_nonempty)
    next
      case m: False
      then have "digits m = digits (m div 10) @ [digit_char (m mod 10)]"
        by (subst digits.simps) simp
      with n "1.prems" have eq: "digits (n div 10) = digits (m div 10)"
        "digit_char (n mod 10) = digit_char (m mod 10)" by simp_all
      from "1.IH" [OF False eq(1)] have "n div 10 = m div 10" .
      moreover have "n mod 10 = m mod 10"
        by (rule digit_char_inj [OF _ _ eq(2)]) simp_all
      ultimately have "10 * (n div 10) + n mod 10 = 10 * (m div 10) + m mod 10" by simp
      then show ?thesis by simp
    qed
  qed
qed

lemma hd_digits: "hd (digits n) \<noteq> CHR ''-''"
proof (induction n rule: digits.induct)
  case (1 n)
  show ?case
  proof (cases "n < 10")
    case True
    then show ?thesis by (subst digits.simps) (simp add: digit_char_not_minus)
  next
    case False
    with 1 show ?thesis by (subst digits.simps) (simp add: digits_nonempty)
  qed
qed

lemma toString_inj: "toString a = toString b \<Longrightarrow> a = b"
proof -
  assume eq: "toString a = toString b"
  have neg: "digits n \<noteq> CHR ''-'' # xs" for n xs
    using hd_digits [of n] by (cases "digits n") auto
  show ?thesis
  proof (cases "a < 0")
    case True
    show ?thesis
    proof (cases "b < 0")
      case b: True
      with True eq have "digits (nat (- a)) = digits (nat (- b))" by (simp add: toString_def)
      then have "nat (- a) = nat (- b)" by (rule digits_inj)
      with True b show ?thesis by simp
    next
      case False
      with True eq have "digits (nat b) = CHR ''-'' # digits (nat (- a))"
        by (simp add: toString_def)
      with neg show ?thesis by blast
    qed
  next
    case False
    show ?thesis
    proof (cases "b < 0")
      case True
      with False eq have "digits (nat a) = CHR ''-'' # digits (nat (- b))"
        by (simp add: toString_def)
      with neg show ?thesis by blast
    next
      case b: False
      with False eq have "digits (nat a) = digits (nat b)" by (simp add: toString_def)
      then have "nat a = nat b" by (rule digits_inj)
      with False b show ?thesis by simp
    qed
  qed
qed

lemma new_id_inj: "(''new-'' @ toString a = ''new-'' @ toString b) = (a = b)"
  using toString_inj by auto

lemma new_id_not_planned: "''new-'' @ toString now \<noteq> step_id (planStep (i, q))"
  by (simp add: planStep_def)

subsection \<open>State updates\<close>

text \<open>What each update does to each cell of the state and to the two logs.\<close>

lemma setArtifact_simps:
  "artifact (setArtifact f s) = f (artifact s)"
  "history (setArtifact f s) = history s @ [f (artifact s)]"
  "messages (setArtifact f s) = messages s"
  "input (setArtifact f s) = input s"
  "currentPlan (setArtifact f s) = currentPlan s"
  "calls (setArtifact f s) = calls s"
  by (simp_all add: setArtifact_def)

lemma setMessages_simps:
  "artifact (setMessages f s) = artifact s"
  "history (setMessages f s) = history s"
  "messages (setMessages f s) = f (messages s)"
  "input (setMessages f s) = input s"
  "currentPlan (setMessages f s) = currentPlan s"
  "calls (setMessages f s) = calls s"
  by (simp_all add: setMessages_def)

lemma called_simps:
  "artifact (called c s) = artifact s"
  "history (called c s) = history s"
  "messages (called c s) = messages s"
  "input (called c s) = input s"
  "currentPlan (called c s) = currentPlan s"
  "calls (called c s) = calls s @ [c]"
  by (simp_all add: called_def)

lemma addSources_simps:
  "art_phase (addSources xs a) = art_phase a"
  "art_content (addSources xs a) = art_content a"
  "art_title (addSources xs a) = art_title a"
  "art_currentStepId (addSources xs a) = art_currentStepId a"
  by (simp_all add: addSources_def Let_def)

lemma appendChunk_simps:
  "artifact (appendChunk c s) = (artifact s)\<lparr>art_content := art_content (artifact s) @ c\<rparr>"
  "history (appendChunk c s) = history s @ [(artifact s)\<lparr>art_content := art_content (artifact s) @ c\<rparr>]"
  "messages (appendChunk c s) = messages s"
  "input (appendChunk c s) = input s"
  "currentPlan (appendChunk c s) = currentPlan s"
  "calls (appendChunk c s) = calls s"
  by (simp_all add: appendChunk_def setArtifact_simps)

lemma beginResearch_simps:
  "artifact (beginResearch env p s) = (artifact s)\<lparr>art_phase := Researching\<rparr>"
  "history (beginResearch env p s) = history s @ [(artifact s)\<lparr>art_phase := Researching\<rparr>]"
  "messages (beginResearch env p s) = messages s @
     [message (toString (dateNow env 0)) Model
        ''Plan approved. Deploying Researcher agent now. Check the sidebar for live progress.''
        (dateNow env 1)]"
  "input (beginResearch env p s) = input s"
  "currentPlan (beginResearch env p s) = Some p"
  "calls (beginResearch env p s) = calls s"
  by (simp_all add: beginResearch_def Let_def setArtifact_simps setMessages_simps)

lemma beginReport_simps:
  "artifact (beginReport env s) = (artifact s)\<lparr>art_phase := Reporting, art_currentStepId := None\<rparr>"
  "history (beginReport env s) =
     history s @ [(artifact s)\<lparr>art_phase := Reporting, art_currentStepId := None\<rparr>]"
  "messages (beginReport env s) = messages s @
     [message (toString (dateNow env 2)) Model
        ''Research complete. Reporter agent is compiling the final artifact...''
        (dateNow env 3)]"
  "input (beginReport env s) = input s"
  "currentPlan (beginReport env s) = currentPlan s"
  "calls (beginReport env s) = calls s"
  by (simp_all add: beginReport_def Let_def setArtifact_simps setMessages_simps)

subsection \<open>The research loop\<close>

text \<open>
  The loop never ends with an error; it completes the steps in order, calls the researcher
  once for each, touches neither the transcript nor the phase, the content or the title,
  and logs only artifact states of the phase in which it started.
\<close>

lemma executeResearchStep_Inr: "\<exists>r. executeResearchStep reply step = Inr r"
  by (simp add: executeResearchStep_def split: sum.split)

lemma researchLoop_completed:
  "\<exists>cs. fst (researchLoop env k todo done s) = Inr (done @ cs) \<and>
        length cs = length todo \<and>
        map step_id cs = map step_id todo \<and>
        map step_query cs = map step_query todo \<and>
        list_all (\<lambda>c. step_status c = StCompleted) cs"
proof (induction todo arbitrary: k "done" s)
  case Nil
  show ?case by simp
next
  case (Cons step rest)
  obtain r where r: "executeResearchStep (researcher env k step) step = Inr r"
    using executeResearchStep_Inr by blast
  define s3 where "s3 = setArtifact (addSources (snd r))
      (called (ResearcherCall step)
        (setArtifact (\<lambda>prev. prev\<lparr>art_currentStepId := Some (step_id step)\<rparr>) s))"
  from Cons.IH [of "Suc k" "done @ [completeStep step r]" s3]
  obtain cs where cs: "fst (researchLoop env (Suc k) rest (done @ [completeStep step r]) s3)
        = Inr ((done @ [completeStep step r]) @ cs)"
      "length cs = length rest" "map step_id cs = map step_id rest"
      "map step_query cs = map step_query rest"
      "list_all (\<lambda>c. step_status c = StCompleted) cs"
    by blast
  have "fst (researchLoop env k (step # rest) done s) = Inr (done @ (completeStep step r # cs))"
    using r cs(1) by (simp add: s3_def Let_def)
  moreover have "step_id (completeStep step r) = step_id step"
    "step_query (completeStep step r) = step_query step"
    "step_status (completeStep step r) = StCompleted"
    by (simp_all add: completeStep_def)
  ultimately show ?case using cs(2-5)
    by (intro exI [of _ "completeStep step r # cs"]) simp
qed

lemma researchLoop_frame:
  "messages (snd (researchLoop env k todo done s)) = messages s \<and>
   input (snd (researchLoop env k todo done s)) = input s \<and>
   currentPlan (snd (researchLoop env k todo done s)) = currentPlan s \<and>
   calls (snd (researchLoop env k todo done s)) = calls s @ map ResearcherCall todo \<and>
   art_phase (artifact (snd (researchLoop env k todo done s))) = art_phase (artifact s) \<and>
   art_content (artifact (snd (researchLoop env k todo done s))) = art_content (artifact s) \<and>
   art_title (artifact (snd (researchLoop env k todo done s))) = art_title (artifact s)"
proof (induction todo arbitrary: k "done" s)
  case Nil
  show ?case by simp
next
  case (Cons step rest)
  obtain r where r: "executeResearchStep (researcher env k step) step = Inr r"
    using executeResearchStep_Inr by blast
  show ?case
    using r by (simp add: Let_def Cons.IH setArtifact_simps called_simps addSources_simps)
qed

lemma researchLoop_history:
  "\<exists>H. history (snd (researchLoop env k todo done s)) = history s @ H \<and>
       list_all (\<lambda>a. art_phase a = art_phase (artifact s)) H"
proof (induction todo arbitrary: k "done" s)
  case Nil
  show ?case by simp
next
  case (Cons step rest)
  obtain r where r: "executeResearchStep (researcher env k step) step = Inr r"
    using executeResearchStep_Inr by blast
  define s1 where "s1 = setArtifact (\<lambda>prev. prev\<lparr>art_currentStepId := Some (step_id step)\<rparr>) s"
  define s3 where "s3 = setArtifact (addSources (snd r)) (called (ResearcherCall step) s1)"
  have ph: "art_phase (artifact s3) = art_phase (artifact s)"
    by (simp add: s3_def s1_def setArtifact_simps called_simps addSources_simps)
  have hist: "history s3 = history s @ [artifact s1, artifact s3]"
    by (simp add: s3_def s1_def setArtifact_simps called_simps)
  have ph1: "art_phase (artifact s1) = art_phase (artifact s)"
    by (simp add: s1_def setArtifact_simps)
  from Cons.IH [of "Suc k" "done @ [completeStep step r]" s3]
  obtain H where H: "history (snd (researchLoop env (Suc k) rest (done @ [completeStep step r]) s3))
        = history s3 @ H" "list_all (\<lambda>a. art_phase a = art_phase (artifact s3)) H"
    by blast
  have "history (snd (researchLoop env k (step # rest) done s))
      = history s @ ([artifact s1, artifact s3] @ H)"
    using r H(1) hist by (simp add: s3_def s1_def Let_def)
  moreover have "list_all (\<lambda>a. art_phase a = art_phase (artifact s)) ([artifact s1, artifact s3] @ H)"
    using H(2) ph ph1 by simp
  ultimately show ?case by blast
qed

text \<open>
  Across results the updater does keep the uris distinct: when no result holds a uri twice,
  the loop keeps the accumulated sources free of repeated uris.
\<close>

lemma uri_seen:
  fixes x y :: Source and xs :: "Source list"
  assumes "x \<in> set xs" and "src_uri x = src_uri y"
  shows "src_uri y \<in> set (map src_uri xs)"
proof -
  from assms(1) have "src_uri x \<in> set (map src_uri xs)" by simp
  with assms(2) show ?thesis by simp
qed

lemma addSources_distinct:
  fixes a :: ArtifactState and found :: "Source list"
  assumes "distinct (map src_uri (art_sources a))" and "distinct (map src_uri found)"
  shows "distinct (map src_uri (art_sources (addSources found a)))"
proof -
  have "set (map src_uri (art_sources a)) \<inter>
        set (map src_uri (filter (\<lambda>x. src_uri x \<notin> set (map src_uri (art_sources a))) found)) = {}"
    using uri_seen [of _ "art_sources a"] by fastforce
  moreover have "distinct (map src_uri
        (filter (\<lambda>x. src_uri x \<notin> set (map src_uri (art_sources a))) found))"
    using assms(2) by (rule distinct_map_filter)
  ultimately show ?thesis
    using assms(1) by (simp add: addSources_def Let_def)
qed

lemma researchLoop_sources_distinct:
  assumes "\<And>k step r. executeResearchStep (researcher env k step) step = Inr r \<Longrightarrow>
             distinct (map src_uri (snd r))"
    and "distinct (map src_uri (art_sources (artifact s)))"
  shows "distinct (map src_uri (art_sources (artifact (snd (researchLoop env k todo done s)))))"
  using assms(2)
proof (induction todo arbitrary: k "done" s)
  case Nil
  then show ?case by simp
next
  case (Cons step rest)
  obtain r where r: "executeResearchStep (researcher env k step) step = Inr r"
    using executeResearchStep_Inr by blast
  have "distinct (map src_uri (art_sources (addSources (snd r) (artifact
          (called (ResearcherCall step)
             (setArtifact (\<lambda>prev. prev\<lparr>art_currentStepId := Some (step_id step)\<rparr>) s))))))"
    by (rule addSources_distinct) (simp_all add: called_simps setArtifact_simps Cons.prems assms(1) [OF r])
  then show ?case
    using r by (simp add: Let_def Cons.IH setArtifact_simps)
qed

subsection \<open>The report stream\<close>

text \<open>Consuming the stream appends the texts of the chunks to the content and changes nothing else.\<close>

lemma forAwait_append:
  "forAwait (xs @ ys) f s = forAwait ys f (forAwait xs f s)"
  by (induction xs f s rule: forAwait.induct) simp_all

lemma forAwait_frame:
  "messages (forAwait chunks appendChunk s) = messages s \<and>
   input (forAwait chunks appendChunk s) = input s \<and>
   currentPlan (forAwait chunks appendChunk s) = currentPlan s \<and>
   calls (forAwait chunks appendChunk s) = calls s \<and>
   art_phase (artifact (forAwait chunks appendChunk s)) = art_phase (artifact s) \<and>
   art_sources (artifact (forAwait chunks appendChunk s)) = art_sources (artifact s) \<and>
   art_title (artifact (forAwait chunks appendChunk s)) = art_title (artifact s) \<and>
   art_currentStepId (artifact (forAwait chunks appendChunk s)) = art_currentStepId (artifact s)"
proof (induction chunks arbitrary: s)
  case Nil
  show ?case by simp
next
  case (Cons c rest)
  show ?case by (cases c) (simp_all add: Cons.IH appendChunk_simps)
qed

lemma forAwait_content:
  "art_content (artifact (forAwait chunks appendChunk s)) =
     art_content (artifact s) @ concat (map (\<lambda>c. case c of None \<Rightarrow> [] | Some t \<Rightarrow> t) chunks)"
proof (induction chunks arbitrary: s)
  case Nil
  show ?case by simp
next
  case (Cons c rest)
  show ?case by (cases c) (simp_all add: Cons.IH appendChunk_simps)
qed

lemma forAwait_history:
  "\<exists>H. history (forAwait chunks appendChunk s) = history s @ H \<and>
       list_all (\<lambda>a. art_phase a = art_phase (artifact s)) H"
proof (induction chunks arbitrary: s)
  case Nil
  show ?case by simp
next
  case (Cons c rest)
  show ?case
  proof (cases "c = None \<or> c = Some []")
    case True
    with Cons.IH [of s] show ?thesis by auto
  next
    case False
    then obtain t where t: "c = Some t" "t \<noteq> []" by (cases c) auto
    from Cons.IH [of "appendChunk t s"]
    obtain H where H: "history (forAwait rest appendChunk (appendChunk t s))
          = history (appendChunk t s) @ H"
        "list_all (\<lambda>a. art_phase a = art_phase (artifact (appendChunk t s))) H"
      by blast
    have "history (forAwait (c # rest) appendChunk s)
        = history s @ ((artifact s)\<lparr>art_content := art_content (artifact s) @ t\<rparr> # H)"
      using t H(1) by (simp add: appendChunk_simps)
    moreover have "list_all (\<lambda>a. art_phase a = art_phase (artifact s))
        ((artifact s)\<lparr>art_content := art_content (artifact s) @ t\<rparr> # H)"
      using H(2) by (simp add: appendChunk_simps)
    ultimately show ?thesis by blast
  qed
qed

subsection \<open>The two handlers\<close>

text \<open>
  \<open>handlePlanApproval\<close> in three stages: the state at the end of the loop, the state at the
  end of the stream, and the outcome, which depends on how the stream ended.
\<close>

lemma remdups_adj_run:
  "x \<noteq> y \<Longrightarrow> remdups_adj (x # replicate n x @ y # ys) = x # remdups_adj (y # ys)"
  by (induction n) simp_all

lemma map_phase_replicate:
  "list_all (\<lambda>a. art_phase a = ph) H \<Longrightarrow> map art_phase H = replicate (length H) ph"
  by (induction H) simp_all

lemma handlePlanApproval_elim:
  obtains cs s4 s8 where
    "researchLoop env 0 (plan_steps p) [] (beginResearch env p s) = (Inr cs, s4)"
    "s8 = forAwait (rep_chunks (reporter env (plan_topic p) cs)) appendChunk
            (called (ReporterCall (plan_topic p) cs) (beginReport env s4))"
    "handlePlanApproval env p s =
       (if rep_rejects (reporter env (plan_topic p) cs) then (Inl ApiError, s8)
        else (Inr (), setArtifact (\<lambda>prev. prev\<lparr>art_phase := Completed\<rparr>) s8))"
proof -
  define s4 where "s4 = snd (researchLoop env 0 (plan_steps p) [] (beginResearch env p s))"
  obtain cs where "fst (researchLoop env 0 (plan_steps p) [] (beginResearch env p s)) = Inr cs"
    using researchLoop_completed [of env 0 "plan_steps p" "[]" "beginResearch env p s"] by auto
  then have loop: "researchLoop env 0 (plan_steps p) [] (beginResearch env p s) = (Inr cs, s4)"
    unfolding s4_def by (metis prod.collapse)
  show ?thesis
    by (rule that [OF loop refl])
       (simp add: handlePlanApproval_def generateFinalReportStream_def Let_def loop)
qed

lemma handlePlanApproval_messages:
  "messages (snd (handlePlanApproval env p s)) = messages s @
     [message (toString (dateNow env 0)) Model
        ''Plan approved. Deploying Researcher agent now. Check the sidebar for live progress.''
        (dateNow env 1),
      message (toString (dateNow env 2)) Model
        ''Research complete. Reporter agent is compiling the final artifact...''
        (dateNow env 3)]"
proof -
  obtain cs s4 s8 where
    loop: "researchLoop env 0 (plan_steps p) [] (beginResearch env p s) = (Inr cs, s4)" and
    s8: "s8 = forAwait (rep_chunks (reporter env (plan_topic p) cs)) appendChunk
            (called (ReporterCall (plan_topic p) cs) (beginReport env s4))" and
    out: "handlePlanApproval env p s =
       (if rep_rejects (reporter env (plan_topic p) cs) then (Inl ApiError, s8)
        else (Inr (), setArtifact (\<lambda>prev. prev\<lparr>art_phase := Completed\<rparr>) s8))"
    by (rule handlePlanApproval_elim)
  have "messages s4 = messages (beginResearch env p s)"
    using researchLoop_frame [of env 0 "plan_steps p" "[]" "beginResearch env p s"] loop by simp
  then show ?thesis
    by (simp add: out s8 forAwait_frame setArtifact_simps called_simps beginReport_simps
        beginResearch_simps)
qed

lemma handlePlanApproval_calls:
  "\<exists>cs. calls (snd (handlePlanApproval env p s)) =
           calls s @ map ResearcherCall (plan_steps p) @ [ReporterCall (plan_topic p) cs]"
proof -
  obtain cs s4 s8 where
    loop: "researchLoop env 0 (plan_steps p) [] (beginResearch env p s) = (Inr cs, s4)" and
    s8: "s8 = forAwait (rep_chunks (reporter env (plan_topic p) cs)) appendChunk
            (called (ReporterCall (plan_topic p) cs) (beginReport env s4))" and
    out: "handlePlanApproval env p s =
       (if rep_rejects (reporter env (plan_topic p) cs) then (Inl ApiError, s8)
        else (Inr (), setArtifact (\<lambda>prev. prev\<lparr>art_phase := Completed\<rparr>) s8))"
    by (rule handlePlanApproval_elim)
  have "calls s4 = calls s @ map ResearcherCall (plan_steps p)"
    using researchLoop_frame [of env 0 "plan_steps p" "[]" "beginResearch env p s"] loop
    by (simp add: beginResearch_simps)
  then have "calls (snd (handlePlanApproval env p s)) =
      calls s @ map ResearcherCall (plan_steps p) @ [ReporterCall (plan_topic p) cs]"
    by (simp add: out s8 forAwait_frame setArtifact_simps called_simps beginReport_simps)
  then show ?thesis by blast
qed

lemma handlePlanApproval_history:
  "\<exists>H. history (snd (handlePlanApproval env p s)) =
         history s @ (artifact s)\<lparr>art_phase := Researching\<rparr> # H"
proof -
  obtain cs s4 s8 where
    loop: "researchLoop env 0 (plan_steps p) [] (beginResearch env p s) = (Inr cs, s4)" and
    s8: "s8 = forAwait (rep_chunks (reporter env (plan_topic p) cs)) appendChunk
            (called (ReporterCall (plan_topic p) cs) (beginReport env s4))" and
    out: "handlePlanApproval env p s =
       (if rep_rejects (reporter env (plan_topic p) cs) then (Inl ApiError, s8)
        else (Inr (), setArtifact (\<lambda>prev. prev\<lparr>art_phase := Completed\<rparr>) s8))"
    by (rule handlePlanApproval_elim)
  obtain H1 where H1: "history s4 = history (beginResearch env p s) @ H1"
    using researchLoop_history [of env 0 "plan_steps p" "[]" "beginResearch env p s"] loop by auto
  obtain H2 where H2: "history s8 =
      history (called (ReporterCall (plan_topic p) cs) (beginReport env s4)) @ H2"
    using forAwait_history [of "rep_chunks (reporter env (plan_topic p) cs)"
        "called (ReporterCall (plan_topic p) cs) (beginReport env s4)"] s8 by auto
  show ?thesis
    by (simp add: out H2 H1 setArtifact_simps called_simps beginReport_simps beginResearch_simps)
qed

lemma handlePlanApproval_completes:
  assumes ok: "\<And>cs. \<not> rep_rejects (reporter env (plan_topic p) cs)"
  shows "fst (handlePlanApproval env p s) = Inr () \<and>
         art_phase (artifact (snd (handlePlanApproval env p s))) = Completed \<and>
         (\<exists>n m. map art_phase (drop (length (history s)) (history (snd (handlePlanApproval env p s))))
            = replicate (Suc n) Researching @ replicate (Suc m) Reporting @ [Completed])"
proof -
  obtain cs s4 s8 where
    loop: "researchLoop env 0 (plan_steps p) [] (beginResearch env p s) = (Inr cs, s4)" and
    s8: "s8 = forAwait (rep_chunks (reporter env (plan_topic p) cs)) appendChunk
            (called (ReporterCall (plan_topic p) cs) (beginReport env s4))" and
    out: "handlePlanApproval env p s =
       (if rep_rejects (reporter env (plan_topic p) cs) then (Inl ApiError, s8)
        else (Inr (), setArtifact (\<lambda>prev. prev\<lparr>art_phase := Completed\<rparr>) s8))"
    by (rule handlePlanApproval_elim)
  have out': "handlePlanApproval env p s =
      (Inr (), setArtifact (\<lambda>prev. prev\<lparr>art_phase := Completed\<rparr>) s8)"
    using out ok by simp
  obtain H1 where H1: "history s4 = history (beginResearch env p s) @ H1"
      "list_all (\<lambda>a. art_phase a = art_phase (artifact (beginResearch env p s))) H1"
    using researchLoop_history [of env 0 "plan_steps p" "[]" "beginResearch env p s"] loop by auto
  obtain H2 where H2: "history s8 =
      history (called (ReporterCall (plan_topic p) cs) (beginReport env s4)) @ H2"
      "list_all (\<lambda>a. art_phase a =
          art_phase (artifact (called (ReporterCall (plan_topic p) cs) (beginReport env s4)))) H2"
    using forAwait_history [of "rep_chunks (reporter env (plan_topic p) cs)"
        "called (ReporterCall (plan_topic p) cs) (beginReport env s4)"] s8 by auto
  have p1: "map art_phase H1 = replicate (length H1) Researching"
    using H1(2) by (simp add: beginResearch_simps map_phase_replicate)
  have p2: "map art_phase H2 = replicate (length H2) Reporting"
    using H2(2) by (simp add: called_simps beginReport_simps map_phase_replicate)
  have "map art_phase (drop (length (history s)) (history (snd (handlePlanApproval env p s))))
      = replicate (Suc (length H1)) Researching @ replicate (Suc (length H2)) Reporting @ [Completed]"
    by (simp add: out' H2(1) H1(1) p1 p2 setArtifact_simps called_simps beginReport_simps
        beginResearch_simps)
  then show ?thesis
    by (auto simp add: out' setArtifact_simps)
qed

lemma handlePlanApproval_content:
  assumes "\<And>cs. rep_chunks (reporter env (plan_topic p) cs) = chunks"
  shows "art_content (artifact (snd (handlePlanApproval env p s))) =
           art_content (artifact s) @ concat (map (\<lambda>c. case c of None \<Rightarrow> [] | Some t \<Rightarrow> t) chunks)"
proof -
  obtain cs s4 s8 where
    loop: "researchLoop env 0 (plan_steps p) [] (beginResearch env p s) = (Inr cs, s4)" and
    s8: "s8 = forAwait (rep_chunks (reporter env (plan_topic p) cs)) appendChunk
            (called (ReporterCall (plan_topic p) cs) (beginReport env s4))" and
    out: "handlePlanApproval env p s =
       (if rep_rejects (reporter env (plan_topic p) cs) then (Inl ApiError, s8)
        else (Inr (), setArtifact (\<lambda>prev. prev\<lparr>art_phase := Completed\<rparr>) s8))"
    by (rule handlePlanApproval_elim)
  have "art_content (artifact s4) = art_content (artifact s)"
    using researchLoop_frame [of env 0 "plan_steps p" "[]" "beginResearch env p s"] loop
    by (simp add: beginResearch_simps)
  then show ?thesis
    by (simp add: out s8 assms forAwait_content setArtifact_simps called_simps beginReport_simps)
qed

lemma handleInitialRequest_blank:
  "trim (input s) = [] \<Longrightarrow> handleInitialRequest env s = s"
  by (simp add: handleInitialRequest_def)

lemma handleInitialRequest_planned:
  assumes "trim (input s) \<noteq> []"
    and "createResearchPlan (jsonParse env) (planner env (input s)) (input s) = Inr plan"
  shows "history (handleInitialRequest env s) = history s @
           [\<lparr>art_title = input s, art_content = [], art_phase = Planning, art_sources = [],
             art_currentStepId = None\<rparr>,
            \<lparr>art_title = input s, art_content = [], art_phase = Reviewing, art_sources = [],
             art_currentStepId = None\<rparr>]"
    and "artifact (handleInitialRequest env s) =
           \<lparr>art_title = input s, art_content = [], art_phase = Reviewing, art_sources = [],
            art_currentStepId = None\<rparr>"
    and "calls (handleInitialRequest env s) = calls s @ [PlannerCall (input s)]"
    and "currentPlan (handleInitialRequest env s) = Some plan"
  using assms
  by (simp_all add: handleInitialRequest_def Let_def setArtifact_simps setMessages_simps
      called_simps)

lemma handleInitialRequest_failed:
  assumes "trim (input s) \<noteq> []"
    and "createResearchPlan (jsonParse env) (planner env (input s)) (input s) = Inl e"
  shows "history (handleInitialRequest env s) = history s @
           [\<lparr>art_title = input s, art_content = [], art_phase = Planning, art_sources = [],
             art_currentStepId = None\<rparr>,
            \<lparr>art_title = input s, art_content = [], art_phase = Idle, art_sources = [],
             art_currentStepId = None\<rparr>]"
    and "artifact (handleInitialRequest env s) =
           \<lparr>art_title = input s, art_content = [], art_phase = Idle, art_sources = [],
            art_currentStepId = None\<rparr>"
    and "calls (handleInitialRequest env s) = calls s @ [PlannerCall (input s)]"
    and "currentPlan (handleInitialRequest env s) = currentPlan s"
    and "messages (handleInitialRequest env s) = messages s @
           [message (toString (dateNow env 0)) User (input s) (dateNow env 1),
            (message (toString (dateNow env 2 + 1)) Model (thinkingContent (input s)) (dateNow env 3))
              \<lparr>msg_isThinking := Some True\<rparr>,
            message (toString (dateNow env 4)) Model
              ''Planner failed to generate a plan. Please try again.'' (dateNow env 5)]"
  using assms
  by (simp_all add: handleInitialRequest_def Let_def setArtifact_simps setMessages_simps
      called_simps)

subsection \<open>Ids in an editing session\<close>

lemma applyEdit_ids:
  assumes "\<forall>x \<in> set (steps st). knownId rs (step_id x)"
  shows "\<forall>x \<in> set (steps (applyEdit e st)). knownId (rs @ addReadings [e]) (step_id x)"
proof (cases e)
  case (Add q now)
  with assms show ?thesis
    by (auto simp add: handleAdd_def setNewStepText_def knownId_def Let_def)
next
  case (Remove i)
  with assms show ?thesis by (auto simp add: handleRemove_def)
next
  case (Edit i q)
  with assms show ?thesis by (auto simp add: handleEdit_def)
qed

lemma addReadings_Cons: "addReadings (e # es) = addReadings [e] @ addReadings es"
  by (cases e) simp_all

lemma knownId_mono: "set rs \<subseteq> set rs' \<Longrightarrow> knownId rs i \<Longrightarrow> knownId rs' i"
  by (auto simp add: knownId_def)

lemma renders_ids:
  assumes "\<forall>x \<in> set (steps st). knownId rs (step_id x)"
  shows "\<forall>r \<in> set (renders es st). \<forall>x \<in> set (steps r). knownId (rs @ addReadings es) (step_id x)"
  using assms
proof (induction es arbitrary: st rs)
  case Nil
  then show ?case by simp
next
  case (Cons e es)
  from applyEdit_ids [OF Cons.prems, of e]
  have "\<forall>x \<in> set (steps (applyEdit e st)). knownId (rs @ addReadings [e]) (step_id x)" .
  from Cons.IH [OF this]
  have "\<forall>r \<in> set (renders es (applyEdit e st)). \<forall>x \<in> set (steps r).
          knownId (rs @ addReadings (e # es)) (step_id x)"
    using addReadings_Cons [of e es] by simp
  moreover have "\<forall>x \<in> set (steps st). knownId (rs @ addReadings (e # es)) (step_id x)"
    using Cons.prems knownId_mono [of rs "rs @ addReadings (e # es)"] by auto
  ultimately show ?case by simp
qed

lemma planned_ids:
  assumes "createResearchPlan parse reply topic = Inr plan"
  shows "\<forall>x \<in> set (steps (planReview plan)). knownId [] (step_id x)"
proof -
  from assms obtain qs where "plan_steps plan = map planStep (enumerate 0 qs)"
    by (auto simp add: createResearchPlan_def split: planner_reply.splits option.splits parsed.splits)
  then show ?thesis
    by (auto simp add: planReview_def knownId_def)
qed

lemma fresh_reading_unknown:
  "now \<notin> set rs \<Longrightarrow> \<not> knownId rs (''new-'' @ toString now)"
proof -
  assume fresh: "now \<notin> set rs"
  have "t \<in> set rs \<Longrightarrow> toString now \<noteq> toString t" for t
    using fresh toString_inj by blast
  then show ?thesis
    using new_id_not_planned by (auto simp add: knownId_def)
qed

section \<open>The claims\<close>

subsection \<open>C1: the phases of a run\<close>

text \<open>
  Claim C1, amended. A topic that is not empty after \<open>trim\<close>, submitted with the Enter key
  while the phase is \<open>Idle\<close> or \<open>Completed\<close>, for which the planner returns a plan, followed by
  the approval of any plan, for which the reporter's stream does not reject: the handler of
  the approval resolves, and the phases that the artifact passes through since the
  submission are exactly planning, reviewing, researching, reporting, completed. A failure
  of the researcher needs no assumption: it yields a degraded result.
\<close>

theorem run_phase_sequence:
  assumes topic: "trim (input s) \<noteq> []"
    and ph: "art_phase (artifact s) = Idle \<or> art_phase (artifact s) = Completed"
    and planned: "createResearchPlan (jsonParse env) (planner env (input s)) (input s) = Inr plan"
    and reported: "\<forall>topic completedSteps. \<not> rep_rejects (reporter env' topic completedSteps)"
  shows "fst (handlePlanApproval env' approvedPlan (handleKeyDown env enterKey s)) = Inr () \<and>
         phasesSince s (snd (handlePlanApproval env' approvedPlan (handleKeyDown env enterKey s)))
           = [Planning, Reviewing, Researching, Reporting, Completed]"
proof -
  define s1 where "s1 = handleInitialRequest env s"
  have key: "handleKeyDown env enterKey s = s1"
    using ph by (auto simp add: handleKeyDown_def enterKey_def s1_def)
  have h1: "history s1 = history s @
           [\<lparr>art_title = input s, art_content = [], art_phase = Planning, art_sources = [],
             art_currentStepId = None\<rparr>,
            \<lparr>art_title = input s, art_content = [], art_phase = Reviewing, art_sources = [],
             art_currentStepId = None\<rparr>]"
    unfolding s1_def by (rule handleInitialRequest_planned(1) [OF topic planned])
  from reported have ok: "\<And>cs. \<not> rep_rejects (reporter env' (plan_topic approvedPlan) cs)"
    by simp
  from handlePlanApproval_completes [of env' approvedPlan s1, OF ok]
  obtain n m where res: "fst (handlePlanApproval env' approvedPlan s1) = Inr ()"
    and tail: "map art_phase (drop (length (history s1))
          (history (snd (handlePlanApproval env' approvedPlan s1))))
        = replicate (Suc n) Researching @ replicate (Suc m) Reporting @ [Completed]"
    by blast
  obtain H where H: "history (snd (handlePlanApproval env' approvedPlan s1)) =
      history s1 @ (artifact s1)\<lparr>art_phase := Researching\<rparr> # H"
    using handlePlanApproval_history [of env' approvedPlan s1] by blast
  have "map art_phase (drop (length (history s))
          (history (snd (handlePlanApproval env' approvedPlan s1))))
      = [Planning, Reviewing] @ map art_phase (drop (length (history s1))
          (history (snd (handlePlanApproval env' approvedPlan s1))))"
    by (simp add: H h1)
  then have "phasesSince s (snd (handlePlanApproval env' approvedPlan s1))
      = remdups_adj (Planning # Reviewing # Researching # replicate n Researching @
          Reporting # replicate m Reporting @ [Completed])"
    by (simp add: phasesSince_def tail)
  also have "\<dots> = [Planning, Reviewing, Researching, Reporting, Completed]"
    by (simp add: remdups_adj_run)
  finally show ?thesis using res by (simp add: key)
qed

text \<open>
  The theorem at a concrete run: the topic \<open>solar panels\<close>, the planner's three steps, of which
  the user removes the second and adds a fourth, and a researcher that fails on its second
  call.
\<close>

theorem run_phase_sequence_witness:
  "trim (input submitExample) \<noteq> [] \<and>
   art_phase (artifact submitExample) = Idle \<and>
   createResearchPlan (jsonParse exampleEnv) (planner exampleEnv (input submitExample))
     (input submitExample) = Inr plannedExample \<and>
   fst (handlePlanApproval exampleEnv editedExample
          (handleKeyDown exampleEnv enterKey submitExample)) = Inr () \<and>
   phasesSince submitExample
     (snd (handlePlanApproval exampleEnv editedExample
             (handleKeyDown exampleEnv enterKey submitExample)))
     = [Planning, Reviewing, Researching, Reporting, Completed]"
proof -
  have a: "trim (input submitExample) \<noteq> []"
    by (simp add: example_defs string_defs)
  have b: "art_phase (artifact submitExample) = Idle"
    by (simp add: example_defs)
  have c: "createResearchPlan (jsonParse exampleEnv) (planner exampleEnv (input submitExample))
     (input submitExample) = Inr plannedExample"
    by (simp add: example_defs createResearchPlan_def defaultPlanJson_def)
  have d: "\<forall>topic completedSteps. \<not> rep_rejects (reporter exampleEnv topic completedSteps)"
    by (simp add: exampleEnv_def)
  from run_phase_sequence [OF a _ c d, of editedExample] a b c show ?thesis by simp
qed

text \<open>
  The claim as it was stated asks only for a non-empty topic. The topic of one space is not
  empty, the phase is \<open>Idle\<close> and the planner would return a plan, but \<open>handleInitialRequest\<close>
  returns at its first line: the state is unchanged and the artifact passes through no phase.
\<close>

theorem blank_topic_ignored:
  "input blankExample \<noteq> [] \<and>
   art_phase (artifact blankExample) = Idle \<and>
   createResearchPlan (jsonParse exampleEnv) (planner exampleEnv (input blankExample))
     (input blankExample) = Inr (plannedExample\<lparr>plan_topic := '' ''\<rparr>) \<and>
   handleKeyDown exampleEnv enterKey blankExample = blankExample \<and>
   phasesSince blankExample (handleKeyDown exampleEnv enterKey blankExample) = []"
  by (simp add: example_defs string_defs code_defs)

subsection \<open>C2: submissions while a run is in progress\<close>

text \<open>
  Claim C2, amended. While the phase is neither \<open>Idle\<close> nor \<open>Completed\<close>, the key handler
  leaves the whole state unchanged for every key event, so no message is appended and the
  planner is not called, and the text input and the send button are disabled.
\<close>

theorem keyboard_submission_ignored:
  assumes "art_phase (artifact s) \<noteq> Idle" and "art_phase (artifact s) \<noteq> Completed"
  shows "handleKeyDown env e s = s \<and> inputDisabled s \<and> sendDisabled s"
  using assms by (simp add: handleKeyDown_def inputDisabled_def sendDisabled_def)

text \<open>The theorem at a state that is researching, for the Enter key.\<close>

theorem keyboard_submission_ignored_witness:
  "art_phase (artifact busyExample) = Researching \<and>
   handleKeyDown exampleEnv enterKey busyExample = busyExample \<and>
   inputDisabled busyExample \<and> sendDisabled busyExample"
proof -
  have a: "art_phase (artifact busyExample) \<noteq> Idle"
    and b: "art_phase (artifact busyExample) \<noteq> Completed"
    by (simp_all add: example_defs)
  from keyboard_submission_ignored [OF a b, of exampleEnv enterKey] show ?thesis
    by (simp add: example_defs)
qed

text \<open>
  \<open>handleInitialRequest\<close> itself, which the send button calls, checks no phase: called
  while the phase is \<open>Researching\<close>, it appends the user message and the placeholder, calls
  the planner, and replaces the artifact of the run in progress.
\<close>

theorem direct_submission_not_rejected:
  "art_phase (artifact busyExample) = Researching \<and>
   length (messages busyExample) = 1 \<and>
   length (messages (handleInitialRequest exampleEnv busyExample)) = 3 \<and>
   art_phase (artifact (handleInitialRequest exampleEnv busyExample)) = Reviewing \<and>
   art_title (artifact (handleInitialRequest exampleEnv busyExample)) = ''wind turbines'' \<and>
   calls (handleInitialRequest exampleEnv busyExample) = [PlannerCall ''wind turbines'']"
  by (simp add: example_defs string_defs code_defs)

subsection \<open>C3: sources with equal uris\<close>

text \<open>
  Claim C3. The updater filters the sources of a result against the uris accumulated before
  that result, not against each other: a single result that holds one uri twice puts two
  entries with that uri into \<open>ArtifactState.sources\<close>. Here a run starts with no sources and
  its only step returns the uri \<open>https://a.example\<close> twice. (For results without such
  repetitions the sources stay free of repeated uris, see \<open>researchLoop_sources_distinct\<close>.)
\<close>

theorem duplicate_uri_within_result:
  "art_sources (artifact (handleInitialRequest exampleEnv submitExample)) = [] \<and>
   art_sources (artifact (snd (handlePlanApproval repeatingEnv
      (examplePlan\<lparr>plan_steps := [exampleStep]\<rparr>)
      (handleInitialRequest exampleEnv submitExample))))
     = [\<lparr>src_title = ''A'', src_uri = ''https://a.example''\<rparr>,
        \<lparr>src_title = ''A again'', src_uri = ''https://a.example''\<rparr>] \<and>
   \<not> distinct (map src_uri (art_sources (artifact (snd (handlePlanApproval repeatingEnv
      (examplePlan\<lparr>plan_steps := [exampleStep]\<rparr>)
      (handleInitialRequest exampleEnv submitExample))))))"
proof -
  have "art_sources (artifact (snd (handlePlanApproval repeatingEnv
      (examplePlan\<lparr>plan_steps := [exampleStep]\<rparr>)
      (handleInitialRequest exampleEnv submitExample))))
     = [\<lparr>src_title = ''A'', src_uri = ''https://a.example''\<rparr>,
        \<lparr>src_title = ''A again'', src_uri = ''https://a.example''\<rparr>]"
    by (simp add: example_defs string_defs code_defs)
  moreover have "art_sources (artifact (handleInitialRequest exampleEnv submitExample)) = []"
    by (simp add: example_defs string_defs code_defs)
  ultimately show ?thesis by simp
qed

subsection \<open>C4: the research operation never rejects\<close>

text \<open>
  Claim C4. For every reply of the generation service and every step,
  \<open>executeResearchStep\<close> resolves; when the body of its \<open>try\<close> block fails, it resolves to the
  finding \<open>Failed to fetch info for this step.\<close> with no sources; and the loop over the steps,
  whatever the replies, ends with the list of completed steps, never with an error.
\<close>

theorem research_step_never_rejects:
  "(\<exists>result. executeResearchStep reply step = Inr result) \<and>
   (\<forall>e. researchTry reply step = Inl e \<longrightarrow>
        executeResearchStep reply step = Inr (''Failed to fetch info for this step.'', [])) \<and>
   (\<exists>completedSteps. fst (researchLoop env k todo done s) = Inr completedSteps)"
proof -
  have "\<exists>completedSteps. fst (researchLoop env k todo done s) = Inr completedSteps"
    using researchLoop_completed [of env k todo "done" s] by blast
  then show ?thesis
    by (simp add: executeResearchStep_def degraded_def split: sum.split)
qed

text \<open>The theorem at a call that rejects and at a response whose grounding chunk is \<open>null\<close>.\<close>

theorem research_step_never_rejects_witness:
  "researchTry ResearchRejects exampleStep = Inl ApiError \<and>
   executeResearchStep ResearchRejects exampleStep
     = Inr (''Failed to fetch info for this step.'', []) \<and>
   researchTry (ResearchResolves \<lparr>resp_text = Some ''x'', resp_groundingChunks = Some [NullChunk]\<rparr>)
     exampleStep = Inl TypeError \<and>
   executeResearchStep
     (ResearchResolves \<lparr>resp_text = Some ''x'', resp_groundingChunks = Some [NullChunk]\<rparr>)
     exampleStep = Inr (''Failed to fetch info for this step.'', [])"
proof -
  have a: "researchTry ResearchRejects exampleStep = Inl ApiError"
    by (simp add: researchTry_def)
  have b: "researchTry (ResearchResolves \<lparr>resp_text = Some ''x'', resp_groundingChunks = Some [NullChunk]\<rparr>)
     exampleStep = Inl TypeError"
    by (simp add: researchTry_def)
  from research_step_never_rejects [of ResearchRejects exampleStep] a
  have "executeResearchStep ResearchRejects exampleStep
     = Inr (''Failed to fetch info for this step.'', [])" by blast
  moreover from research_step_never_rejects
    [of "ResearchResolves \<lparr>resp_text = Some ''x'', resp_groundingChunks = Some [NullChunk]\<rparr>"
        exampleStep] b
  have "executeResearchStep
     (ResearchResolves \<lparr>resp_text = Some ''x'', resp_groundingChunks = Some [NullChunk]\<rparr>)
     exampleStep = Inr (''Failed to fetch info for this step.'', [])" by blast
  ultimately show ?thesis using a b by simp
qed

subsection \<open>C5: the completed steps handed to the reporter\<close>

text \<open>
  Claim C5. For every approved plan, environment and state, the handler calls the
  researcher once for each step of the plan, in order, and then the reporter with a list of
  completed steps that has the length of the plan, the ids and queries of the plan's steps
  in the plan's order, and the status \<open>completed\<close> in every entry.
\<close>

theorem completed_steps_follow_plan:
  "\<exists>completedSteps.
     calls (snd (handlePlanApproval env approvedPlan s)) =
       calls s @ map ResearcherCall (plan_steps approvedPlan) @
       [ReporterCall (plan_topic approvedPlan) completedSteps] \<and>
     length completedSteps = length (plan_steps approvedPlan) \<and>
     map step_id completedSteps = map step_id (plan_steps approvedPlan) \<and>
     map step_query completedSteps = map step_query (plan_steps approvedPlan) \<and>
     list_all (\<lambda>c. step_status c = StCompleted) completedSteps"
proof -
  obtain cs s4 s8 where
    loop: "researchLoop env 0 (plan_steps approvedPlan) [] (beginResearch env approvedPlan s)
      = (Inr cs, s4)" and
    s8: "s8 = forAwait (rep_chunks (reporter env (plan_topic approvedPlan) cs)) appendChunk
            (called (ReporterCall (plan_topic approvedPlan) cs) (beginReport env s4))" and
    out: "handlePlanApproval env approvedPlan s =
       (if rep_rejects (reporter env (plan_topic approvedPlan) cs) then (Inl ApiError, s8)
        else (Inr (), setArtifact (\<lambda>prev. prev\<lparr>art_phase := Completed\<rparr>) s8))"
    by (rule handlePlanApproval_elim)
  have "calls s4 = calls s @ map ResearcherCall (plan_steps approvedPlan)"
    using researchLoop_frame [of env 0 "plan_steps approvedPlan" "[]"
        "beginResearch env approvedPlan s"] loop
    by (simp add: beginResearch_simps)
  then have handed: "calls (snd (handlePlanApproval env approvedPlan s)) =
      calls s @ map ResearcherCall (plan_steps approvedPlan) @
      [ReporterCall (plan_topic approvedPlan) cs]"
    by (simp add: out s8 forAwait_frame setArtifact_simps called_simps beginReport_simps)
  have "length cs = length (plan_steps approvedPlan) \<and>
        map step_id cs = map step_id (plan_steps approvedPlan) \<and>
        map step_query cs = map step_query (plan_steps approvedPlan) \<and>
        list_all (\<lambda>c. step_status c = StCompleted) cs"
    using researchLoop_completed [of env 0 "plan_steps approvedPlan" "[]"
        "beginResearch env approvedPlan s"] loop
    by auto
  with handed show ?thesis by blast
qed

text \<open>The theorem at a plan of two steps, the researcher failing on the second.\<close>

theorem completed_steps_follow_plan_witness:
  "researchTry (researcher exampleEnv 1 (plan_steps examplePlan ! 1)) (plan_steps examplePlan ! 1)
     = Inl ApiError \<and>
   (\<exists>completedSteps.
     calls (snd (handlePlanApproval exampleEnv examplePlan submitExample)) =
       map ResearcherCall (plan_steps examplePlan) @ [ReporterCall ''solar panels'' completedSteps] \<and>
     length completedSteps = 2 \<and>
     map step_id completedSteps = [''step-0'', ''step-1''] \<and>
     map step_query completedSteps = [''history'', ''efficiency''] \<and>
     list_all (\<lambda>c. step_status c = StCompleted) completedSteps)"
  using completed_steps_follow_plan [of exampleEnv examplePlan submitExample]
  by (simp add: example_defs researchTry_def numeral_2_eq_2)

subsection \<open>C6: the content is the concatenation of the chunks\<close>

text \<open>
  Claim C6. When the reporter's stream delivers the chunks \<open>chunks\<close> and ends, the handler of
  the approval resolves in the phase \<open>Completed\<close> and the content is the content at its start
  followed by the texts of the chunks in their order, a chunk without text counting as
  empty; after a submission the content at its start is empty, so that the content is the
  concatenation of the chunks; and a chunk whose text is empty changes nothing, wherever it
  stands in the stream. With no chunks the content is unchanged.
\<close>

theorem report_content_concatenation:
  assumes stream: "\<forall>completedSteps. reporter env (plan_topic approvedPlan) completedSteps
      = \<lparr>rep_chunks = chunks, rep_rejects = False\<rparr>"
  shows "fst (handlePlanApproval env approvedPlan s) = Inr () \<and>
         art_phase (artifact (snd (handlePlanApproval env approvedPlan s))) = Completed \<and>
         art_content (artifact (snd (handlePlanApproval env approvedPlan s)))
           = art_content (artifact s) @
             concat (map (\<lambda>c. case c of None \<Rightarrow> [] | Some t \<Rightarrow> t) chunks) \<and>
         (trim (input start) \<noteq> [] \<longrightarrow>
            art_content (artifact (snd (handlePlanApproval env approvedPlan
                                          (handleInitialRequest planEnv start))))
              = concat (map (\<lambda>c. case c of None \<Rightarrow> [] | Some t \<Rightarrow> t) chunks)) \<and>
         forAwait (before @ Some [] # after) appendChunk s' =
           forAwait (before @ after) appendChunk s'"
proof -
  have ok: "\<And>cs. \<not> rep_rejects (reporter env (plan_topic approvedPlan) cs)"
    and chunks: "\<And>cs. rep_chunks (reporter env (plan_topic approvedPlan) cs) = chunks"
    using stream by simp_all
  have content: "art_content (artifact (snd (handlePlanApproval env approvedPlan x)))
           = art_content (artifact x) @
             concat (map (\<lambda>c. case c of None \<Rightarrow> [] | Some t \<Rightarrow> t) chunks)" for x
    by (rule handlePlanApproval_content [OF chunks])
  have empty: "art_content (artifact (handleInitialRequest planEnv start)) = []"
    if "trim (input start) \<noteq> []"
  proof (cases "createResearchPlan (jsonParse planEnv) (planner planEnv (input start)) (input start)")
    case (Inl e)
    from handleInitialRequest_failed(2) [OF that Inl] show ?thesis by simp
  next
    case (Inr plan)
    from handleInitialRequest_planned(2) [OF that Inr] show ?thesis by simp
  qed
  have skip: "forAwait (before @ Some [] # after) appendChunk s' =
           forAwait (before @ after) appendChunk s'"
    by (simp add: forAwait_append)
  from handlePlanApproval_completes [OF ok, of s] content [of s]
    content [of "handleInitialRequest planEnv start"] empty skip
  show ?thesis by simp
qed

text \<open>The theorem at a stream of four chunks, the second empty and the third without text.\<close>

theorem report_content_concatenation_witness:
  "art_content (artifact (handleInitialRequest exampleEnv submitExample)) = [] \<and>
   fst (handlePlanApproval exampleEnv examplePlan (handleInitialRequest exampleEnv submitExample))
     = Inr () \<and>
   art_phase (artifact (snd (handlePlanApproval exampleEnv examplePlan
     (handleInitialRequest exampleEnv submitExample)))) = Completed \<and>
   art_content (artifact (snd (handlePlanApproval exampleEnv examplePlan
     (handleInitialRequest exampleEnv submitExample)))) = ''# Solar panels''"
proof -
  have a: "\<forall>completedSteps. reporter exampleEnv (plan_topic examplePlan) completedSteps
      = \<lparr>rep_chunks = [Some ''# Solar'', Some [], None, Some '' panels''], rep_rejects = False\<rparr>"
    by (simp add: exampleEnv_def)
  have b: "trim (input submitExample) \<noteq> []"
    by (simp add: example_defs string_defs)
  have c: "art_content (artifact (handleInitialRequest exampleEnv submitExample)) = []"
    by (simp add: example_defs string_defs code_defs)
  from report_content_concatenation [OF a, where s = "handleInitialRequest exampleEnv submitExample"
      and start = submitExample and planEnv = exampleEnv and before = "[]" and after = "[]"
      and s' = submitExample] b c
  show ?thesis by simp
qed

subsection \<open>C7: a failure of the planner\<close>

text \<open>
  Claim C7. When the topic is not blank and the planner call rejects, or \<open>JSON.parse\<close> throws
  on its output, \<open>handleInitialRequest\<close> appends the user message, the placeholder and the
  failure message to the transcript, leaves the phase \<open>Idle\<close>, has called the planner once
  and no other agent, and leaves the current plan as it was; none of the three messages
  carries a plan to approve.
\<close>

theorem planner_failure_recovered:
  assumes topic: "trim (input s) \<noteq> []"
    and failure: "planner env (input s) = PlannerRejects \<or>
      (\<exists>text. planner env (input s) = PlannerResolves text \<and>
              jsonParse env (or_else text defaultPlanJson) = None)"
  shows "messages (handleInitialRequest env s) = messages s @
           [message (toString (dateNow env 0)) User (input s) (dateNow env 1),
            (message (toString (dateNow env 2 + 1)) Model (thinkingContent (input s)) (dateNow env 3))
              \<lparr>msg_isThinking := Some True\<rparr>,
            message (toString (dateNow env 4)) Model
              ''Planner failed to generate a plan. Please try again.'' (dateNow env 5)] \<and>
         art_phase (artifact (handleInitialRequest env s)) = Idle \<and>
         calls (handleInitialRequest env s) = calls s @ [PlannerCall (input s)] \<and>
         currentPlan (handleInitialRequest env s) = currentPlan s"
proof -
  from failure obtain e where
    "createResearchPlan (jsonParse env) (planner env (input s)) (input s) = Inl e"
    by (auto simp add: createResearchPlan_def)
  from handleInitialRequest_failed [OF topic this] show ?thesis by simp
qed

text \<open>The theorem at a planner that rejects and at a planner whose output does not parse.\<close>

theorem planner_failure_recovered_witness:
  "planner failingEnv (input submitExample) = PlannerRejects \<and>
   length (messages submitExample) = 1 \<and>
   map msg_content (drop 1 (messages (handleInitialRequest failingEnv submitExample)))
     = [''solar panels'', thinkingContent ''solar panels'',
        ''Planner failed to generate a plan. Please try again.''] \<and>
   art_phase (artifact (handleInitialRequest failingEnv submitExample)) = Idle \<and>
   calls (handleInitialRequest failingEnv submitExample) = [PlannerCall ''solar panels''] \<and>
   jsonParse unparsableEnv (or_else (Some ''{...}'') defaultPlanJson) = None \<and>
   art_phase (artifact (handleInitialRequest unparsableEnv submitExample)) = Idle \<and>
   calls (handleInitialRequest unparsableEnv submitExample) = [PlannerCall ''solar panels'']"
proof -
  have a: "trim (input submitExample) \<noteq> []"
    by (simp add: example_defs string_defs)
  have b: "planner failingEnv (input submitExample) = PlannerRejects"
    by (simp add: more_defs example_defs)
  have c: "planner unparsableEnv (input submitExample) = PlannerResolves (Some ''{...}'') \<and>
      jsonParse unparsableEnv (or_else (Some ''{...}'') defaultPlanJson) = None"
    by (simp add: more_defs example_defs)
  from b have b': "planner failingEnv (input submitExample) = PlannerRejects \<or>
      (\<exists>text. planner failingEnv (input submitExample) = PlannerResolves text \<and>
              jsonParse failingEnv (or_else text defaultPlanJson) = None)" by simp
  from c have c': "planner unparsableEnv (input submitExample) = PlannerRejects \<or>
      (\<exists>text. planner unparsableEnv (input submitExample) = PlannerResolves text \<and>
              jsonParse unparsableEnv (or_else text defaultPlanJson) = None)" by blast
  from planner_failure_recovered [OF a b'] planner_failure_recovered [OF a c'] b c
  show ?thesis
    by (simp add: submitExample_def initialApp_def message_def)
qed

subsection \<open>C8: the id of an added step\<close>

text \<open>
  Claim C8, amended. In a working copy that an editing session made from a plan of the
  planner, removing a step and then adding a text that is not blank appends one step, whose
  id is \<open>new-\<close> followed by the clock reading; if that reading differs from the readings of all
  earlier additions, the id occurs in no state that the working copy has had.
\<close>

theorem added_step_id_fresh:
  assumes planned: "createResearchPlan parse reply topic = Inr plan"
    and fresh: "now \<notin> set (addReadings es)"
    and nonblank: "trim q \<noteq> []"
  shows "steps (handleAdd now (setNewStepText q (handleRemove rid (last (renders es (planReview plan))))))
           = filter (\<lambda>x. step_id x \<noteq> rid) (steps (last (renders es (planReview plan)))) @
             [\<lparr>step_id = ''new-'' @ toString now, step_query = q, step_status = StPending,
               step_finding = None, step_sources = None\<rparr>] \<and>
         (\<forall>r \<in> set (renders es (planReview plan)).
            ''new-'' @ toString now \<notin> set (map step_id (steps r)))"
proof -
  have "\<forall>r \<in> set (renders es (planReview plan)). \<forall>x \<in> set (steps r).
          knownId (addReadings es) (step_id x)"
    using renders_ids [OF planned_ids [OF planned], of es] by simp
  with fresh_reading_unknown [OF fresh]
  have "\<forall>r \<in> set (renders es (planReview plan)).
            ''new-'' @ toString now \<notin> set (map step_id (steps r))"
    by auto
  then show ?thesis
    using nonblank by (simp add: handleAdd_def setNewStepText_def handleRemove_def Let_def)
qed

text \<open>The theorem after an addition and an edit, removing the planner's second step.\<close>

theorem added_step_id_fresh_witness:
  "createResearchPlan (jsonParse exampleEnv) (planner exampleEnv ''solar panels'') ''solar panels''
     = Inr plannedExample \<and>
   1700000009000 \<notin> set (addReadings [Add ''wind'' 1700000001000, Edit ''step-0'' ''past'']) \<and>
   map step_id (steps (handleAdd 1700000009000 (setNewStepText ''efficiency''
      (handleRemove ''step-1''
         (last (renders [Add ''wind'' 1700000001000, Edit ''step-0'' ''past'']
                  (planReview plannedExample)))))))
     = [''step-0'', ''step-2'', ''new-1700000001000'', ''new-1700000009000''] \<and>
   ''new-1700000009000'' \<notin> set (map step_id (steps
      (last (renders [Add ''wind'' 1700000001000, Edit ''step-0'' ''past'']
               (planReview plannedExample)))))"
proof -
  have a: "createResearchPlan (jsonParse exampleEnv) (planner exampleEnv ''solar panels'')
      ''solar panels'' = Inr plannedExample"
    by (simp add: example_defs createResearchPlan_def defaultPlanJson_def)
  have b: "1700000009000 \<notin> set (addReadings [Add ''wind'' 1700000001000, Edit ''step-0'' ''past''])"
    by simp
  have c: "trim ''efficiency'' \<noteq> []"
    by (simp add: string_defs)
  have d: "toString 1700000009000 = ''1700000009000''"
    by (simp add: string_defs)
  from added_step_id_fresh [OF a b c, of "''step-1''"] a b d
  show ?thesis
    by (simp add: example_defs string_defs code_defs enumerate_eq_zip)
qed

text \<open>
  The id depends on the clock alone. When the clock reads at the second addition what it
  read at the first, removing the added step and adding the same text again gives the
  removed step's id back.
\<close>

theorem removed_id_resurrected:
  "map step_id (steps reusedExample)
     = [''step-0'', ''step-1'', ''step-2'', ''new-1700000009000''] \<and>
   trim ''cost trends 2024'' \<noteq> [] \<and>
   map step_id (steps (handleAdd 1700000009000 (setNewStepText ''cost trends 2024''
      (handleRemove ''new-1700000009000'' reusedExample))))
     = [''step-0'', ''step-1'', ''step-2'', ''new-1700000009000'']"
  by (simp add: more_defs example_defs string_defs code_defs enumerate_eq_zip)

subsection \<open>C9: approving a plan without steps\<close>

text \<open>
  Claim C9. When the approved plan has no steps and the reporter's stream does not reject,
  the handler resolves, has called the reporter alone, with the empty list, has left the
  sources as they were, and the artifact has passed through researching, reporting and
  completed.
\<close>

theorem empty_plan_completes:
  assumes empty: "plan_steps approvedPlan = []"
    and reported: "\<not> rep_rejects (reporter env (plan_topic approvedPlan) [])"
  shows "fst (handlePlanApproval env approvedPlan s) = Inr () \<and>
         calls (snd (handlePlanApproval env approvedPlan s))
           = calls s @ [ReporterCall (plan_topic approvedPlan) []] \<and>
         art_sources (artifact (snd (handlePlanApproval env approvedPlan s)))
           = art_sources (artifact s) \<and>
         phasesSince s (snd (handlePlanApproval env approvedPlan s))
           = [Researching, Reporting, Completed] \<and>
         art_phase (artifact (snd (handlePlanApproval env approvedPlan s))) = Completed"
proof -
  define s7 where "s7 = called (ReporterCall (plan_topic approvedPlan) [])
      (beginReport env (beginResearch env approvedPlan s))"
  define s8 where "s8 = forAwait (rep_chunks (reporter env (plan_topic approvedPlan) []))
      appendChunk s7"
  have out: "handlePlanApproval env approvedPlan s =
      (Inr (), setArtifact (\<lambda>prev. prev\<lparr>art_phase := Completed\<rparr>) s8)"
    using empty reported
    by (simp add: handlePlanApproval_def generateFinalReportStream_def Let_def s8_def s7_def)
  obtain H where H: "history s8 = history s7 @ H"
      "list_all (\<lambda>a. art_phase a = art_phase (artifact s7)) H"
    using forAwait_history [of "rep_chunks (reporter env (plan_topic approvedPlan) [])" s7]
    by (auto simp add: s8_def)
  have ph: "map art_phase H = replicate (length H) Reporting"
    using H(2) by (simp add: s7_def called_simps beginReport_simps map_phase_replicate)
  have "phasesSince s (snd (handlePlanApproval env approvedPlan s))
      = remdups_adj (Researching # Reporting # replicate (length H) Reporting @ [Completed])"
    by (simp add: phasesSince_def out setArtifact_simps H(1) ph s7_def called_simps
        beginReport_simps beginResearch_simps)
  also have "\<dots> = [Researching, Reporting, Completed]"
    by (simp add: remdups_adj_run)
  finally show ?thesis
    by (simp add: out setArtifact_simps s8_def forAwait_frame s7_def called_simps
        beginReport_simps beginResearch_simps)
qed

text \<open>The theorem at the example plan without its steps.\<close>

theorem empty_plan_completes_witness:
  "fst (handlePlanApproval exampleEnv (examplePlan\<lparr>plan_steps := []\<rparr>) submitExample) = Inr () \<and>
   calls (snd (handlePlanApproval exampleEnv (examplePlan\<lparr>plan_steps := []\<rparr>) submitExample))
     = [ReporterCall ''solar panels'' []] \<and>
   art_sources (artifact (snd (handlePlanApproval exampleEnv (examplePlan\<lparr>plan_steps := []\<rparr>)
     submitExample))) = [] \<and>
   phasesSince submitExample
     (snd (handlePlanApproval exampleEnv (examplePlan\<lparr>plan_steps := []\<rparr>) submitExample))
     = [Researching, Reporting, Completed]"
proof -
  have a: "plan_steps (examplePlan\<lparr>plan_steps := []\<rparr>) = []" by simp
  have b: "\<not> rep_rejects (reporter exampleEnv (plan_topic (examplePlan\<lparr>plan_steps := []\<rparr>)) [])"
    by (simp add: exampleEnv_def)
  from empty_plan_completes [OF a b, of submitExample] show ?thesis
    by (simp add: example_defs)
qed

subsection \<open>C10: the approval checks no phase\<close>

text \<open>
  Claim C10. The outcome of \<open>handlePlanApproval\<close> is the same from two states that differ in
  the phase alone; from every state it appends the confirmation to the transcript, sets the
  phase to \<open>Researching\<close> as its first update of the artifact, and calls the researcher for the
  steps of the plan in order.
\<close>

theorem approval_checks_no_phase:
  "handlePlanApproval env approvedPlan (s\<lparr>artifact := (artifact s)\<lparr>art_phase := ph\<rparr>\<rparr>)
     = handlePlanApproval env approvedPlan (s\<lparr>artifact := (artifact s)\<lparr>art_phase := ph'\<rparr>\<rparr>) \<and>
   (\<exists>later. messages (snd (handlePlanApproval env approvedPlan s)) = messages s @
      message (toString (dateNow env 0)) Model
        ''Plan approved. Deploying Researcher agent now. Check the sidebar for live progress.''
        (dateNow env 1) # later) \<and>
   (\<exists>later. history (snd (handlePlanApproval env approvedPlan s)) =
      history s @ (artifact s)\<lparr>art_phase := Researching\<rparr> # later) \<and>
   (\<exists>later. calls (snd (handlePlanApproval env approvedPlan s)) =
      calls s @ map ResearcherCall (plan_steps approvedPlan) @ later)"
proof -
  have "beginResearch env approvedPlan (s\<lparr>artifact := (artifact s)\<lparr>art_phase := ph\<rparr>\<rparr>)
      = beginResearch env approvedPlan (s\<lparr>artifact := (artifact s)\<lparr>art_phase := ph'\<rparr>\<rparr>)"
    by (simp add: beginResearch_def setArtifact_def setMessages_def Let_def)
  then have "handlePlanApproval env approvedPlan (s\<lparr>artifact := (artifact s)\<lparr>art_phase := ph\<rparr>\<rparr>)
     = handlePlanApproval env approvedPlan (s\<lparr>artifact := (artifact s)\<lparr>art_phase := ph'\<rparr>\<rparr>)"
    by (simp only: handlePlanApproval_def)
  moreover have "\<exists>later. calls (snd (handlePlanApproval env approvedPlan s)) =
      calls s @ map ResearcherCall (plan_steps approvedPlan) @ later"
    using handlePlanApproval_calls [of env approvedPlan s] by blast
  ultimately show ?thesis
    using handlePlanApproval_history [of env approvedPlan s]
    by (simp add: handlePlanApproval_messages)
qed

text \<open>The theorem for the phases \<open>Completed\<close> and \<open>Reporting\<close>.\<close>

theorem approval_checks_no_phase_witness:
  "handlePlanApproval exampleEnv examplePlan
     (submitExample\<lparr>artifact := (artifact submitExample)\<lparr>art_phase := Completed\<rparr>\<rparr>)
   = handlePlanApproval exampleEnv examplePlan
     (submitExample\<lparr>artifact := (artifact submitExample)\<lparr>art_phase := Reporting\<rparr>\<rparr>)"
  using approval_checks_no_phase [where env = exampleEnv and approvedPlan = examplePlan
      and s = submitExample and ph = Completed and ph' = Reporting]
  by simp

end
